theory Spec2Isabelle
  imports Main "HOL-Library.Word"
begin

unbundle bit_operations_syntax

section \<open>Library functions the program calls\<close>

text \<open>
  The program is a single Go file, \<^verbatim>\<open>gecko.go\<close>. Go strings are byte strings and are
  modelled as \<open>string\<close> (a list of 8-bit characters); \<^verbatim>\<open>[]byte\<close> values are lists of
  8-bit words; \<^verbatim>\<open>uint64\<close> is \<open>64 word\<close>, whose arithmetic wraps around.
\<close>

type_synonym byte = "8 word"
type_synonym uint64 = "64 word"

subsection \<open>Package \<^verbatim>\<open>strings\<close>\<close>

text \<open>
  \<^verbatim>\<open>strings.ToUpper\<close> on ASCII text: the letters a..z are mapped to A..Z and every other
  byte is kept. (On text outside ASCII Go maps by the Unicode case tables, which are not
  part of this development; every string the program upper-cases in the theorems below
  is kept abstract or is ASCII.)
\<close>

definition toUpperChar :: "char \<Rightarrow> char" where
  "toUpperChar c =
     (let n = (of_char c :: nat) in if 97 \<le> n \<and> n \<le> 122 then char_of (n - 32) else c)"

definition ToUpper :: "string \<Rightarrow> string" where
  "ToUpper s = map toUpperChar s"

text \<open>\<^verbatim>\<open>strings.Join(elems, sep)\<close>.\<close>

fun Join :: "string list \<Rightarrow> string \<Rightarrow> string" where
  "Join [] sep = []"
| "Join [x] sep = x"
| "Join (x # y # ys) sep = x @ sep @ Join (y # ys) sep"

subsection \<open>Package \<^verbatim>\<open>encoding/hex\<close>\<close>

definition hextable :: string where
  "hextable = ''0123456789abcdef''"

text \<open>\<^verbatim>\<open>hex.EncodeToString\<close>: two lower-case digits per byte, high nibble first.\<close>

definition encodeByte :: "byte \<Rightarrow> string" where
  "encodeByte v = [hextable ! unat (drop_bit 4 v), hextable ! unat (v AND 0x0f)]"

definition EncodeToString :: "byte list \<Rightarrow> string" where
  "EncodeToString src = concat (map encodeByte src)"

text \<open>
  \<^verbatim>\<open>fromHexChar\<close>: the value of a hexadecimal digit of either case, \<open>None\<close> for any
  other byte.
\<close>

definition fromHexChar :: "char \<Rightarrow> byte option" where
  "fromHexChar c =
     (let n = (of_char c :: nat) in
      if 48 \<le> n \<and> n \<le> 57 then Some (of_nat (n - 48))
      else if 97 \<le> n \<and> n \<le> 102 then Some (of_nat (n - 97 + 10))
      else if 65 \<le> n \<and> n \<le> 70 then Some (of_nat (n - 65 + 10))
      else None)"

datatype hexError = InvalidByteError char | ErrLength

text \<open>
  \<^verbatim>\<open>hex.DecodeString\<close>: pairs of digits become bytes; the first byte that is not a digit is
  an \<open>InvalidByteError\<close>, and an odd length without such a byte is \<open>ErrLength\<close>. The
  program never looks at the bytes decoded before an error.
\<close>

fun DecodeString :: "string \<Rightarrow> hexError + byte list" where
  "DecodeString [] = Inr []"
| "DecodeString [p] =
     (case fromHexChar p of None \<Rightarrow> Inl (InvalidByteError p) | Some a \<Rightarrow> Inl ErrLength)"
| "DecodeString (p # q # src) =
     (case fromHexChar p of
        None \<Rightarrow> Inl (InvalidByteError p)
      | Some a \<Rightarrow>
         (case fromHexChar q of
            None \<Rightarrow> Inl (InvalidByteError q)
          | Some b \<Rightarrow>
             (case DecodeString src of
                Inl e \<Rightarrow> Inl e
              | Inr dst \<Rightarrow> Inr ((push_bit 4 a OR b) # dst))))"

subsection \<open>Package \<^verbatim>\<open>fmt\<close>\<close>

definition upperhex :: string where
  "upperhex = ''0123456789ABCDEF''"

text \<open>The digits of \<^verbatim>\<open>%X\<close>: upper-case hexadecimal without leading zeros.\<close>

fun fmtX :: "nat \<Rightarrow> string" where
  "fmtX n = (if n < 16 then [upperhex ! n] else fmtX (n div 16) @ [upperhex ! (n mod 16)])"

declare fmtX.simps [simp del]

text \<open>\<^verbatim>\<open>%0wX\<close>: the digits, padded with zeros on the left to at least \<open>w\<close> characters.\<close>

definition Sprintf_0X :: "nat \<Rightarrow> nat \<Rightarrow> string" where
  "Sprintf_0X w n = replicate (w - length (fmtX n)) CHR ''0'' @ fmtX n"

subsection \<open>Package \<^verbatim>\<open>strconv\<close>\<close>

datatype numError = ErrSyntax | ErrRange

text \<open>
  \<^verbatim>\<open>strconv.ParseUint(s, 16, 32)\<close>. The digit of a byte is taken as the library does
  (\<^verbatim>\<open>lower(c) = c | ('x' - 'X')\<close>); a digit that is not below the base is a syntax
  error with value 0, and a value that does not fit 32 bits is a range error with
  the value \<open>2^32 - 1\<close>.
\<close>

definition lower :: "byte \<Rightarrow> byte" where
  "lower c = c OR 0x20"

definition digitOf :: "char \<Rightarrow> byte option" where
  "digitOf ch =
     (let c = (of_char ch :: byte) in
      if 48 \<le> c \<and> c \<le> 57 then Some (c - 48)
      else if 97 \<le> lower c \<and> lower c \<le> 122 then Some (lower c - 97 + 10)
      else None)"

definition cutoff :: uint64 where
  "cutoff = 0xFFFFFFFFFFFFFFFF div 16 + 1"

definition maxVal :: uint64 where
  "maxVal = push_bit 32 1 - 1"

fun parseUintLoop :: "uint64 \<Rightarrow> string \<Rightarrow> uint64 \<times> numError option" where
  "parseUintLoop n [] = (n, None)"
| "parseUintLoop n (c # s) =
     (case digitOf c of
        None \<Rightarrow> (0, Some ErrSyntax)
      | Some d \<Rightarrow>
         if d \<ge> 16 then (0, Some ErrSyntax)
         else if n \<ge> cutoff then (maxVal, Some ErrRange)
         else
           (let n' = n * 16; n1 = n' + ucast d in
            if n1 < n' \<or> n1 > maxVal then (maxVal, Some ErrRange)
            else parseUintLoop n1 s))"

definition ParseUint :: "string \<Rightarrow> uint64 \<times> numError option" where
  "ParseUint s = (if s = [] then (0, Some ErrSyntax) else parseUintLoop 0 s)"

section \<open>The program\<close>

text \<open>
  Every \<^verbatim>\<open>log.Panic\<close>, every \<^verbatim>\<open>os.Exit\<close> and every run-time panic of the program is a
  value of \<open>error\<close>; a function that can fail returns \<open>error + 'a\<close>.
\<close>

datatype error =
    MustProvideCommand
  | OnlyBuildSupported
  | ConfigReadFailed
  | ConfigInvalid
  | NoOutputFiles
  | AddressParseFailed
  | ReadDirFailed
  | OpenFailed string
  | AddressNotSpecified string "hexError option"
  | NoCodeFound string
  | ReadBinaryFailed string
  | CompilePanic string
  | CompileExit string
  | SliceBounds
  | IndexOutOfRange

text \<open>\<^verbatim>\<open>s[2:]\<close> on a string: a run-time panic when the string has fewer than 2 bytes.\<close>

definition from2 :: "string \<Rightarrow> error + string" where
  "from2 s = (if length s < 2 then Inl SliceBounds else Inr (drop 2 s))"

subsection \<open>\<^verbatim>\<open>generateBranchCodeLine\<close>\<close>

text \<open>
  Lines 175 to 191: the line for two parsed addresses. \<open>addressDiff\<close> is a \<^verbatim>\<open>uint64\<close>, so
  the subtraction wraps and the comparison with 0 is the unsigned one.
\<close>

definition branchLine :: "string \<Rightarrow> uint64 \<Rightarrow> uint64 \<Rightarrow> bool \<Rightarrow> string" where
  "branchLine address2 addressUint targetAddressUint shouldLink =
     (let addressDiff = targetAddressUint - addressUint;
          prefix = (if addressDiff < 0 then ''4B'' else ''48'');
          addressDiff = (if shouldLink then addressDiff + 1 else addressDiff);
          addressDiffStr = Sprintf_0X 6 (unat addressDiff);
          addressDiffStr = drop (length addressDiffStr - 6) addressDiffStr
      in ''04'' @ ToUpper address2 @ '' '' @ prefix @ addressDiffStr)"

text \<open>
  Lines 169 to 173: both addresses are parsed into the same \<^verbatim>\<open>err\<close> variable, and only
  the second value of \<^verbatim>\<open>err\<close> is tested.
\<close>

definition generateBranchCodeLine :: "string \<Rightarrow> string \<Rightarrow> bool \<Rightarrow> error + string" where
  "generateBranchCodeLine address targetAddress shouldLink =
     (case from2 address of
        Inl e \<Rightarrow> Inl e
      | Inr address2 \<Rightarrow>
         (let (addressUint, err) = ParseUint address2 in
          case from2 targetAddress of
            Inl e \<Rightarrow> Inl e
          | Inr targetAddress2 \<Rightarrow>
             (let (targetAddressUint, err) = ParseUint targetAddress2 in
              if err \<noteq> None then Inl AddressParseFailed
              else Inr (branchLine address2 addressUint targetAddressUint shouldLink))))"

subsection \<open>Byte slices\<close>

text \<open>
  A \<^verbatim>\<open>[]byte\<close> value is its \<open>elems\<close> (the \<^verbatim>\<open>len\<close> bytes it holds) together with
  the \<open>spare\<close> bytes of its backing array that lie between its length and its
  capacity: Go lets a slice expression reach up to the capacity, and \<^verbatim>\<open>append\<close> writes
  into the spare bytes when they suffice.
\<close>

record bytes =
  elems :: "byte list"
  spare :: "byte list"

definition cap :: "bytes \<Rightarrow> nat" where
  "cap s = length (elems s) + length (spare s)"

text \<open>
  \<^verbatim>\<open>append(s, bs...)\<close>. When the capacity does not suffice, the run-time system allocates a
  zeroed array whose capacity it chooses; that choice is the parameter \<open>grow\<close> (from the old
  capacity and the length needed).
\<close>

definition appendBytes :: "(nat \<Rightarrow> nat \<Rightarrow> nat) \<Rightarrow> bytes \<Rightarrow> byte list \<Rightarrow> bytes" where
  "appendBytes grow s bs =
     (if length bs \<le> length (spare s)
      then \<lparr>elems = elems s @ bs, spare = drop (length bs) (spare s)\<rparr>
      else \<lparr>elems = elems s @ bs,
            spare = replicate (grow (cap s) (length (elems s) + length bs)
                                 - (length (elems s) + length bs)) 0\<rparr>)"

text \<open>The bytes of \<^verbatim>\<open>s[i:j]\<close>; a run-time panic unless \<open>i \<le> j \<le> cap s\<close>.\<close>

definition sliceBytes :: "bytes \<Rightarrow> nat \<Rightarrow> nat \<Rightarrow> error + byte list" where
  "sliceBytes s i j =
     (if i \<le> j \<and> j \<le> cap s then Inr (take (j - i) (drop i (elems s @ spare s)))
      else Inl SliceBounds)"

subsection \<open>The world outside the program\<close>

text \<open>What the assembler run of \<^verbatim>\<open>compile\<close> ends in.\<close>

datatype compiled =
    Assembled bytes
  | AssemblerFailed
  | CompilePanicked

text \<open>
  A directory entry as \<^verbatim>\<open>ioutil.ReadDir\<close> reports it, with what \<^verbatim>\<open>ReadDir\<close> returns for
  the entry itself when it is read as a directory.
\<close>

datatype entry = Entry (entryName: string) (entryIsDir: bool) (entryListing: listing)
  and listing = ReadDirError | Contents "entry list"

record GeckoCode =
  Type :: string
  Address :: string
  TargetAddress :: string
  Annotation :: string
  IsRecursive :: bool
  SourceFile :: string
  SourceFolder :: string
  Value :: string

record CodeDescription =
  Name :: string
  Authors :: "string list"
  Description :: "string list"
  Build :: "GeckoCode list"

record Config =
  OutputFiles :: "string list"
  Codes :: "CodeDescription list"

text \<open>
  Everything the program reads from its environment: the command line, \<^verbatim>\<open>codes.json\<close> and
  its decoding by \<^verbatim>\<open>json.Unmarshal\<close>, the assembler, the file system, and the two
  library choices left open (\<^verbatim>\<open>filepath.Join\<close> and the growth of a slice).
\<close>

record world =
  osArgs :: "string list"
  codesJson :: "byte list option"
  jsonUnmarshal :: "byte list \<Rightarrow> Config option"
  assemble :: "string \<Rightarrow> compiled"
  readFile :: "string \<Rightarrow> bytes option"
  firstLineOf :: "string \<Rightarrow> string option"
  readDir :: "string \<Rightarrow> listing"
  filepathJoin :: "string \<Rightarrow> string \<Rightarrow> string"
  growslice :: "nat \<Rightarrow> nat \<Rightarrow> nat"

text \<open>
  \<^verbatim>\<open>compile\<close>: the bytes of the assembled file; \<^verbatim>\<open>os.Exit(1)\<close> when the assembler or
  objcopy fails, a panic on every other failure.
\<close>

definition compile :: "world \<Rightarrow> string \<Rightarrow> error + bytes" where
  "compile w file =
     (case assemble w file of
        Assembled contents \<Rightarrow> Inr contents
      | AssemblerFailed \<Rightarrow> Inl (CompileExit file)
      | CompilePanicked \<Rightarrow> Inl (CompilePanic file))"

text \<open>
  \<^verbatim>\<open>filepath.Ext\<close> with the separator \<^verbatim>\<open>/\<close>: the suffix from the last dot of the last
  element of the path, empty when that element has no dot. \<open>extScan\<close> walks the path
  from its end.
\<close>

fun extScan :: "string \<Rightarrow> string \<Rightarrow> string" where
  "extScan [] suffix = []"
| "extScan (c # before) suffix =
     (if c = CHR ''/'' then []
      else if c = CHR ''.'' then c # suffix
      else extScan before (c # suffix))"

definition Ext :: "string \<Rightarrow> string" where
  "Ext path = extScan (rev path) []"

subsection \<open>Single lines\<close>

definition generateReplaceCodeLine :: "string \<Rightarrow> string \<Rightarrow> error + string" where
  "generateReplaceCodeLine address val =
     (case from2 address of
        Inl e \<Rightarrow> Inl e
      | Inr address2 \<Rightarrow> Inr (''04'' @ ToUpper address2 @ '' '' @ ToUpper val))"

definition addLineAnnotation :: "string \<Rightarrow> string \<Rightarrow> string" where
  "addLineAnnotation line annotation =
     (if annotation = [] then line else line @ '' #'' @ annotation)"

text \<open>\<^verbatim>\<open>lines[0] = addLineAnnotation(lines[0], annotation)\<close>.\<close>

definition annotateFirst :: "string list \<Rightarrow> string \<Rightarrow> error + string list" where
  "annotateFirst lines annotation =
     (case lines of
        [] \<Rightarrow> Inl IndexOutOfRange
      | line # rest \<Rightarrow> Inr (addLineAnnotation line annotation # rest))"

subsection \<open>Multi-line codes\<close>

text \<open>
  The loop shared by the three multi-line generators:
  \<^verbatim>\<open>for i := 0; i < len(instructions); i += 8\<close>, one line from
  \<^verbatim>\<open>instructions[i:i+4]\<close> and \<^verbatim>\<open>instructions[i+4:i+8]\<close>.
\<close>

function recordLines :: "bytes \<Rightarrow> nat \<Rightarrow> error + string list" where
  "recordLines instructions i =
     (if i < length (elems instructions) then
        (case sliceBytes instructions i (i + 4) of
           Inl e \<Rightarrow> Inl e
         | Inr l \<Rightarrow>
            (case sliceBytes instructions (i + 4) (i + 8) of
               Inl e \<Rightarrow> Inl e
             | Inr r \<Rightarrow>
                (case recordLines instructions (i + 8) of
                   Inl e \<Rightarrow> Inl e
                 | Inr lines \<Rightarrow>
                    Inr ((ToUpper (EncodeToString l) @ '' '' @ ToUpper (EncodeToString r))
                         # lines))))
      else Inr [])"
  by pat_completeness auto
termination
  by (relation "measure (\<lambda>(instructions, i). length (elems instructions) - i)") auto

declare recordLines.simps [simp del]

text \<open>
  Lines 301 to 306 of \<^verbatim>\<open>generateInjectionCodeLines\<close>: the padding of an injected block
  (the packer's mode A).
\<close>

definition padInjection :: "(nat \<Rightarrow> nat \<Rightarrow> nat) \<Rightarrow> bytes \<Rightarrow> bytes" where
  "padInjection grow instructions =
     (if length (elems instructions) mod 8 = 0
      then appendBytes grow instructions [0x60, 0x00, 0x00, 0x00, 0x00, 0x00, 0x00, 0x00]
      else appendBytes grow instructions [0x00, 0x00, 0x00, 0x00])"

text \<open>
  Lines 325 to 328 and 352 to 355: the padding of a replaced block
  (the packer's mode B).
\<close>

definition padBlock :: "(nat \<Rightarrow> nat \<Rightarrow> nat) \<Rightarrow> bytes \<Rightarrow> bytes" where
  "padBlock grow instructions =
     (if length (elems instructions) mod 8 \<noteq> 0
      then appendBytes grow instructions [0x60, 0x00, 0x00, 0x00]
      else instructions)"

definition generateInjectionCodeLines :: "world \<Rightarrow> string \<Rightarrow> string \<Rightarrow> error + string list" where
  "generateInjectionCodeLines w address file =
     (case compile w file of
        Inl e \<Rightarrow> Inl e
      | Inr instructions \<Rightarrow>
         if length (elems instructions) = 0 then Inl (NoCodeFound file)
         else if length (elems instructions) = 4 then
           (case sliceBytes instructions 0 4 of
              Inl e \<Rightarrow> Inl e
            | Inr word \<Rightarrow>
               (case generateReplaceCodeLine address (EncodeToString word) of
                  Inl e \<Rightarrow> Inl e
                | Inr replaceLine \<Rightarrow> Inr [replaceLine]))
         else
           (let instructions = padInjection (growslice w) instructions in
            case from2 address of
              Inl e \<Rightarrow> Inl e
            | Inr address2 \<Rightarrow>
               (case recordLines instructions 0 of
                  Inl e \<Rightarrow> Inl e
                | Inr lines \<Rightarrow>
                   Inr ((''C2'' @ ToUpper address2 @ '' ''
                         @ Sprintf_0X 8 (length (elems instructions) div 8)) # lines))))"

text \<open>The two block generators differ only in where the bytes come from.\<close>

definition blockLines :: "world \<Rightarrow> string \<Rightarrow> bytes \<Rightarrow> error + string list" where
  "blockLines w address instructions =
     (let instructions = padBlock (growslice w) instructions in
      case from2 address of
        Inl e \<Rightarrow> Inl e
      | Inr address2 \<Rightarrow>
         (case recordLines instructions 0 of
            Inl e \<Rightarrow> Inl e
          | Inr lines \<Rightarrow>
             Inr ((''06'' @ ToUpper address2 @ '' ''
                   @ Sprintf_0X 8 (length (elems instructions))) # lines)))"

definition generateReplaceCodeBlockLines :: "world \<Rightarrow> string \<Rightarrow> string \<Rightarrow> error + string list" where
  "generateReplaceCodeBlockLines w address file =
     (case compile w file of
        Inl e \<Rightarrow> Inl e
      | Inr instructions \<Rightarrow> blockLines w address instructions)"

definition generateReplaceBinaryLines :: "world \<Rightarrow> string \<Rightarrow> string \<Rightarrow> error + string list" where
  "generateReplaceBinaryLines w address file =
     (case readFile w file of
        None \<Rightarrow> Inl (ReadBinaryFailed file)
      | Some contents \<Rightarrow> blockLines w address contents)"

subsection \<open>\<^verbatim>\<open>generateInjectionFolderLines\<close>\<close>

text \<open>
  The body of the first loop for one directory entry whose extension is \<^verbatim>\<open>.asm\<close>
  (lines 217 to 261): open the file, take its first line, cut the address from the last
  8 bytes, check it with \<^verbatim>\<open>hex.DecodeString\<close>, compile, annotate.
\<close>

definition injectFile :: "world \<Rightarrow> string \<Rightarrow> string \<Rightarrow> error + string list" where
  "injectFile w folder fileName =
     (let filePath = filepathJoin w folder fileName in
      case firstLineOf w filePath of
        None \<Rightarrow> Inl (OpenFailed filePath)
      | Some firstLine \<Rightarrow>
         (let lineLength = length firstLine in
          if lineLength < 8 then Inl (AddressNotSpecified filePath None)
          else
            (let address = drop (lineLength - 8) firstLine in
             case DecodeString address of
               Inl err \<Rightarrow> Inl (AddressNotSpecified filePath (Some err))
             | Inr decoded \<Rightarrow>
                (case generateInjectionCodeLines w address filePath of
                   Inl e \<Rightarrow> Inl e
                 | Inr fileLines \<Rightarrow> annotateFirst fileLines filePath))))"

text \<open>The first loop (lines 210 to 262), over the entries in the order of the listing.\<close>

fun injectFiles :: "world \<Rightarrow> string \<Rightarrow> entry list \<Rightarrow> error + string list" where
  "injectFiles w folder [] = Inr []"
| "injectFiles w folder (file # contents) =
     (if Ext (entryName file) \<noteq> ''.asm'' then injectFiles w folder contents
      else
        (case injectFile w folder (entryName file) of
           Inl e \<Rightarrow> Inl e
         | Inr fileLines \<Rightarrow>
            (case injectFiles w folder contents of
               Inl e \<Rightarrow> Inl e
             | Inr lines \<Rightarrow> Inr (fileLines @ lines))))"

text \<open>
  The function itself, on the listing that \<^verbatim>\<open>ioutil.ReadDir(folder)\<close> returns, and its
  second loop (lines 266 to 275), \<open>injectSubfolders\<close>, which calls it for every entry
  that is a directory.
\<close>

function generateInjectionFolderLines ::
    "world \<Rightarrow> string \<Rightarrow> bool \<Rightarrow> listing \<Rightarrow> error + string list"
  and injectSubfolders :: "world \<Rightarrow> string \<Rightarrow> bool \<Rightarrow> entry list \<Rightarrow> error + string list" where
  "generateInjectionFolderLines w folder isRecursive ReadDirError = Inl ReadDirFailed"
| "generateInjectionFolderLines w folder isRecursive (Contents contents) =
     (case injectFiles w folder contents of
        Inl e \<Rightarrow> Inl e
      | Inr lines \<Rightarrow>
         if isRecursive then
           (case injectSubfolders w folder isRecursive contents of
              Inl e \<Rightarrow> Inl e
            | Inr folderLines \<Rightarrow> Inr (lines @ folderLines))
         else Inr lines)"
| "injectSubfolders w folder isRecursive [] = Inr []"
| "injectSubfolders w folder isRecursive (Entry folderName isDir sub # contents) =
     (if \<not> isDir then injectSubfolders w folder isRecursive contents
      else
        (case generateInjectionFolderLines w (filepathJoin w folder folderName) isRecursive sub of
           Inl e \<Rightarrow> Inl e
         | Inr folderLines \<Rightarrow>
            (case injectSubfolders w folder isRecursive contents of
               Inl e \<Rightarrow> Inl e
             | Inr lines \<Rightarrow> Inr (folderLines @ lines))))"
  by pat_completeness auto
termination
  by (relation "measure (\<lambda>x. case x of
          Inl (w, folder, isRecursive, sub) \<Rightarrow> size sub
        | Inr (w, folder, isRecursive, contents) \<Rightarrow> size_list size contents)") auto

subsection \<open>The line sequencer\<close>

definition generateHeaderLines :: "CodeDescription \<Rightarrow> string list" where
  "generateHeaderLines desc =
     (''$'' @ Name desc @ '' ['' @ Join (Authors desc) '', '' @ '']'')
     # map (\<lambda>line. ''*'' @ line) (Description desc)"

text \<open>The body of the \<^verbatim>\<open>switch\<close> of \<^verbatim>\<open>generateCodeLines\<close> for one entry.\<close>

definition codeLinesOf :: "world \<Rightarrow> GeckoCode \<Rightarrow> error + string list" where
  "codeLinesOf w geckoCode =
     (if Type geckoCode = ''replace'' then
        (case generateReplaceCodeLine (Address geckoCode) (Value geckoCode) of
           Inl e \<Rightarrow> Inl e
         | Inr line \<Rightarrow> Inr [addLineAnnotation line (Annotation geckoCode)])
      else if Type geckoCode = ''inject'' then
        (case generateInjectionCodeLines w (Address geckoCode) (SourceFile geckoCode) of
           Inl e \<Rightarrow> Inl e
         | Inr lines \<Rightarrow> annotateFirst lines (Annotation geckoCode))
      else if Type geckoCode = ''replaceCodeBlock'' then
        (case generateReplaceCodeBlockLines w (Address geckoCode) (SourceFile geckoCode) of
           Inl e \<Rightarrow> Inl e
         | Inr lines \<Rightarrow> annotateFirst lines (Annotation geckoCode))
      else if Type geckoCode = ''replaceBinary'' then
        (case generateReplaceBinaryLines w (Address geckoCode) (SourceFile geckoCode) of
           Inl e \<Rightarrow> Inl e
         | Inr lines \<Rightarrow> annotateFirst lines (Annotation geckoCode))
      else if Type geckoCode = ''branch'' \<or> Type geckoCode = ''branchAndLink'' then
        (let shouldLink = (Type geckoCode = ''branchAndLink'') in
         case generateBranchCodeLine (Address geckoCode) (TargetAddress geckoCode) shouldLink of
           Inl e \<Rightarrow> Inl e
         | Inr line \<Rightarrow> Inr [addLineAnnotation line (Annotation geckoCode)])
      else if Type geckoCode = ''injectFolder'' then
        generateInjectionFolderLines w (SourceFolder geckoCode) (IsRecursive geckoCode)
          (readDir w (SourceFolder geckoCode))
      else Inr [])"

fun codeLinesLoop :: "world \<Rightarrow> GeckoCode list \<Rightarrow> error + string list" where
  "codeLinesLoop w [] = Inr []"
| "codeLinesLoop w (geckoCode # rest) =
     (case codeLinesOf w geckoCode of
        Inl e \<Rightarrow> Inl e
      | Inr lines \<Rightarrow>
         (case codeLinesLoop w rest of
            Inl e \<Rightarrow> Inl e
          | Inr result \<Rightarrow> Inr (lines @ result)))"

definition generateCodeLines :: "world \<Rightarrow> CodeDescription \<Rightarrow> error + string list" where
  "generateCodeLines w desc = codeLinesLoop w (Build desc)"

text \<open>
  \<^verbatim>\<open>buildBody\<close> appends to the global \<^verbatim>\<open>output\<close>; here the lines built so far are passed
  in and the new value of \<^verbatim>\<open>output\<close> is returned.
\<close>

fun buildLoop :: "world \<Rightarrow> CodeDescription list \<Rightarrow> string list \<Rightarrow> error + string list" where
  "buildLoop w [] output = Inr output"
| "buildLoop w (code # codes) output =
     (case generateCodeLines w code of
        Inl e \<Rightarrow> Inl e
      | Inr codeLines \<Rightarrow>
         buildLoop w codes (output @ generateHeaderLines code @ codeLines @ [[]]))"

definition buildBody :: "world \<Rightarrow> Config \<Rightarrow> string list \<Rightarrow> error + string list" where
  "buildBody w config output = buildLoop w (Codes config) output"

subsection \<open>The serializer\<close>

definition writeTextOutput :: "string list \<Rightarrow> byte list" where
  "writeTextOutput output = map of_char (Join output [CHR 0x0A])"

text \<open>The loop of \<^verbatim>\<open>writeGctOutput\<close> (lines 455 to 468), with \<^verbatim>\<open>gctBytes\<close> passed along.\<close>

fun gctLoop :: "byte list \<Rightarrow> string list \<Rightarrow> byte list" where
  "gctLoop gctBytes [] = gctBytes"
| "gctLoop gctBytes (line # output) =
     (if length line < 17 then gctLoop gctBytes output
      else
        (case DecodeString (take 8 line @ take 8 (drop 9 line)) of
           Inl err \<Rightarrow> gctLoop gctBytes output
         | Inr lineBytes \<Rightarrow> gctLoop (gctBytes @ lineBytes) output))"

text \<open>The bytes \<^verbatim>\<open>writeGctOutput\<close> hands to \<^verbatim>\<open>ioutil.WriteFile\<close>.\<close>

definition writeGctOutput :: "string list \<Rightarrow> byte list" where
  "writeGctOutput output =
     gctLoop [0x00, 0xD0, 0xC0, 0xDE, 0x00, 0xD0, 0xC0, 0xDE] output
     @ [0xF0, 0x00, 0x00, 0x00, 0x00, 0x00, 0x00, 0x00]"

text \<open>
  \<^verbatim>\<open>writeOutput\<close>: the file name and the bytes of one call of \<^verbatim>\<open>ioutil.WriteFile\<close>, whose
  result the program does not look at.
\<close>

definition writeOutput :: "string list \<Rightarrow> string \<Rightarrow> string \<times> byte list" where
  "writeOutput output outputFile =
     (if Ext outputFile = ''.gct'' then (outputFile, writeGctOutput output)
      else (outputFile, writeTextOutput output))"

subsection \<open>\<^verbatim>\<open>main\<close>\<close>

definition readConfigFile :: "world \<Rightarrow> error + Config" where
  "readConfigFile w =
     (case codesJson w of
        None \<Rightarrow> Inl ConfigReadFailed
      | Some contents \<Rightarrow>
         (case jsonUnmarshal w contents of
            None \<Rightarrow> Inl ConfigInvalid
          | Some result \<Rightarrow> Inr result))"

text \<open>
  The body of \<^verbatim>\<open>main\<close> up to the first write: the configuration and the value of
  \<^verbatim>\<open>output\<close>, or the first failure.
\<close>

definition buildAll :: "world \<Rightarrow> error + Config \<times> string list" where
  "buildAll w =
     (if length (osArgs w) < 2 then Inl MustProvideCommand
      else if osArgs w ! 1 \<noteq> ''build'' then Inl OnlyBuildSupported
      else
        (case readConfigFile w of
           Inl e \<Rightarrow> Inl e
         | Inr config \<Rightarrow>
            if length (OutputFiles config) < 1 then Inl NoOutputFiles
            else
              (case buildBody w config [] of
                 Inl e \<Rightarrow> Inl e
               | Inr output \<Rightarrow> Inr (config, output))))"

text \<open>
  How the process ends after a failure. \<^verbatim>\<open>os.Exit(1)\<close> ends it with status 1 at once.
  Every panic, from \<^verbatim>\<open>log.Panic\<close> or from the run-time system, reaches the deferred
  \<^verbatim>\<open>recover()\<close> of \<^verbatim>\<open>main\<close>: \<^verbatim>\<open>main\<close> then returns normally and the process ends with
  status 0.
\<close>

definition exitStatusOf :: "error \<Rightarrow> nat" where
  "exitStatusOf e = (case e of CompileExit file \<Rightarrow> 1 | _ \<Rightarrow> 0)"

record outcome =
  exitStatus :: nat
  written :: "(string \<times> byte list) list"

definition main :: "world \<Rightarrow> outcome" where
  "main w =
     (case buildAll w of
        Inl e \<Rightarrow> \<lparr>exitStatus = exitStatusOf e, written = []\<rparr>
      | Inr (config, output) \<Rightarrow>
         \<lparr>exitStatus = 0, written = map (writeOutput output) (OutputFiles config)\<rparr>)"

section \<open>Notions of the specification\<close>

text \<open>
  The definitions of this section are not translated from the program: they say, in the
  words of the specification, what the theorems below compare the program with.
\<close>

subsection \<open>Hexadecimal text\<close>

text \<open>A hexadecimal digit of either case, and its value.\<close>

definition isHexDigit :: "char \<Rightarrow> bool" where
  "isHexDigit c =
     (let n = (of_char c :: nat) in
      (48 \<le> n \<and> n \<le> 57) \<or> (65 \<le> n \<and> n \<le> 70) \<or> (97 \<le> n \<and> n \<le> 102))"

definition digitValue :: "char \<Rightarrow> nat" where
  "digitValue c =
     (let n = (of_char c :: nat) in
      if n \<le> 57 then n - 48 else if n \<le> 70 then n - 55 else n - 87)"

definition validHex :: "string \<Rightarrow> bool" where
  "validHex s = list_all isHexDigit s"

text \<open>The number a string of digits denotes, and the bytes its pairs of digits denote.\<close>

definition hexValue :: "string \<Rightarrow> nat" where
  "hexValue s = foldl (\<lambda>v c. 16 * v + digitValue c) 0 s"

fun hexBytes :: "string \<Rightarrow> byte list" where
  "hexBytes (p # q # s) = of_nat (16 * digitValue p + digitValue q) # hexBytes s"
| "hexBytes s = []"

subsection \<open>Branches\<close>

text \<open>
  The 24-bit displacement field of a branch line: its last six characters, read as a
  24-bit number.
\<close>

definition displacementField :: "string \<Rightarrow> 24 word" where
  "displacementField line = of_nat (hexValue (drop (length line - 6) line))"

text \<open>The prefix byte of a branch line: the two characters before the field.\<close>

definition branchPrefix :: "string \<Rightarrow> string" where
  "branchPrefix line = take 2 (drop (length line - 8) line)"

subsection \<open>Records\<close>

text \<open>The line of the \<open>k\<close>-th 8-byte record of a packed byte sequence.\<close>

definition recordLine :: "byte list \<Rightarrow> nat \<Rightarrow> string" where
  "recordLine packed k =
     ToUpper (EncodeToString (take 4 (drop (8 * k) packed))) @ '' ''
     @ ToUpper (EncodeToString (take 4 (drop (8 * k + 4) packed)))"

text \<open>
  An injection block: the header with the number of records, then one line per
  8-byte record.
\<close>

definition injectionBlock :: "string \<Rightarrow> byte list \<Rightarrow> string list" where
  "injectionBlock address packed =
     (''C2'' @ ToUpper (drop 2 address) @ '' '' @ Sprintf_0X 8 (length packed div 8))
     # map (recordLine packed) [0..<length packed div 8]"

subsection \<open>The binary container\<close>

text \<open>
  A code line: at least 17 characters, with hexadecimal digits in the character ranges
  [0,8) and [9,17); and the 8 bytes such a line contributes.
\<close>

definition isCodeLine :: "string \<Rightarrow> bool" where
  "isCodeLine line =
     (17 \<le> length line \<and> validHex (take 8 line) \<and> validHex (take 8 (drop 9 line)))"

definition codeLineBytes :: "string \<Rightarrow> byte list" where
  "codeLineBytes line =
     (if isCodeLine line then hexBytes (take 8 line) @ hexBytes (take 8 (drop 9 line))
      else [])"

text \<open>A header line, a comment line or a blank line of the text output.\<close>

definition isTextOnlyLine :: "string \<Rightarrow> bool" where
  "isTextOnlyLine line =
     (case line of [] \<Rightarrow> True | c # rest \<Rightarrow> c = CHR ''$'' \<or> c = CHR ''*'')"

subsection \<open>Folders\<close>

text \<open>
  The injection address a source file carries: the last 8 characters of its first
  line, well formed when there are 8 of them and all are hexadecimal digits.
\<close>

definition addressOfLine :: "string \<Rightarrow> string" where
  "addressOfLine firstLine = drop (length firstLine - 8) firstLine"

definition wellFormedAddress :: "string \<Rightarrow> bool" where
  "wellFormedAddress firstLine = (8 \<le> length firstLine \<and> validHex (addressOfLine firstLine))"

text \<open>The entries of a listing that are assembly files, and those that are directories.\<close>

definition asmEntries :: "entry list \<Rightarrow> entry list" where
  "asmEntries contents = filter (\<lambda>file. Ext (entryName file) = ''.asm'') contents"

definition dirEntries :: "entry list \<Rightarrow> entry list" where
  "dirEntries contents = filter entryIsDir contents"

text \<open>The lines of a result, none when it is a failure.\<close>

definition linesOf :: "error + string list \<Rightarrow> string list" where
  "linesOf r = (case r of Inl e \<Rightarrow> [] | Inr lines \<Rightarrow> lines)"

section \<open>Example inputs\<close>

text \<open>
  A world in which the assembler turns every file into the given bytes, every file
  read holds the same bytes and starts with the given line, and the folder
  \<^verbatim>\<open>asm\<close> has the given listing; a grown slice gets exactly the capacity it needs.
\<close>

definition exampleWorld :: "bytes \<Rightarrow> string \<Rightarrow> listing \<Rightarrow> world" where
  "exampleWorld code firstLine contents =
     \<lparr>osArgs = [''gecko'', ''build''],
      codesJson = None,
      jsonUnmarshal = (\<lambda>contents. None),
      assemble = (\<lambda>file. Assembled code),
      readFile = (\<lambda>file. Some code),
      firstLineOf = (\<lambda>file. Some firstLine),
      readDir = (\<lambda>folder. contents),
      filepathJoin = (\<lambda>folder name. folder @ ''/'' @ name),
      growslice = (\<lambda>oldCap needed. needed)\<rparr>"

definition bytesOf :: "byte list \<Rightarrow> bytes" where
  "bytesOf bs = \<lparr>elems = bs, spare = []\<rparr>"

section \<open>Evaluation rules\<close>

text \<open>
  \<open>fmtX\<close> is unfolded one digit at a time; the rule sets below evaluate the library
  functions on concrete inputs inside the simplifier.
\<close>

lemma fmtX_small: "n < 16 \<Longrightarrow> fmtX n = [upperhex ! n]"
  by (simp add: fmtX.simps)

lemma fmtX_big: "16 \<le> n \<Longrightarrow> fmtX n = fmtX (n div 16) @ [upperhex ! (n mod 16)]"
  by (subst fmtX.simps) simp

lemma char_of_eval:
  "char_of (n::nat) = Char (odd n) (odd (n div 2)) (odd (n div 4)) (odd (n div 8))
     (odd (n div 16)) (odd (n div 32)) (odd (n div 64)) (odd (n div 128))"
  by (simp add: char_of_def bit_iff_odd)

lemma replicate_numeral: "replicate (numeral k) x = x # replicate (pred_numeral k) x"
  by (simp add: numeral_eq_Suc)

lemmas parse_eval = ParseUint_def digitOf_def lower_def cutoff_def maxVal_def
  word_le_nat_alt word_less_nat_alt

lemmas format_eval = Sprintf_0X_def fmtX_small fmtX_big upperhex_def ToUpper_def
  toUpperChar_def char_of_eval replicate_numeral

lemmas branch_eval = generateBranchCodeLine_def from2_def branchLine_def

lemma encodeByte_eval:
  "encodeByte v = [hextable ! (unat v div 16), hextable ! (unat v mod 16)]"
proof -
  have "unat (drop_bit 4 v) = unat v div 16"
    by (simp add: unat_drop_bit_eq drop_bit_eq_div unat_div)
  moreover have "unat (v AND 0x0f) = unat v mod 16"
  proof -
    have "v AND 0x0f = take_bit 4 v"
      using take_bit_eq_mask [of 4 v] by (simp add: mask_eq_exp_minus_1)
    then show ?thesis
      by (simp add: unsigned_take_bit_eq take_bit_eq_mod unat_mod)
  qed
  ultimately show ?thesis
    by (simp add: encodeByte_def)
qed

lemmas lines_eval = generateInjectionCodeLines_def compile_def exampleWorld_def bytesOf_def
  sliceBytes_def cap_def padInjection_def appendBytes_def from2_def generateReplaceCodeLine_def
  EncodeToString_def encodeByte_eval hextable_def

lemmas block_eval = generateReplaceBinaryLines_def blockLines_def padBlock_def

section \<open>Branch lines\<close>

subsection \<open>The prefix\<close>

text \<open>
  The comparison \<^verbatim>\<open>addressDiff < 0\<close> is made on a \<^verbatim>\<open>uint64\<close> and never holds: every branch
  line carries the prefix 48.
\<close>

lemma branchLine_48:
  "branchLine a2 x y l = (''04'' @ ToUpper a2 @ '' 48'') @
     drop (length (Sprintf_0X 6 (unat (if l then y - x + 1 else y - x))) - 6)
       (Sprintf_0X 6 (unat (if l then y - x + 1 else y - x)))"
  by (simp add: branchLine_def Let_def)

lemma length_Sprintf: "w \<le> length (Sprintf_0X w n)"
  by (simp add: Sprintf_0X_def)

lemma prefix_of_line:
  assumes "length d = 6"
  shows "take 2 (drop (length (pre @ ''48'' @ d) - 8) (pre @ ''48'' @ d)) = ''48''"
  using assms by simp

lemma branchPrefix_branchLine: "branchPrefix (branchLine a2 x y l) = ''48''"
proof -
  define s where "s = Sprintf_0X 6 (unat (if l then y - x + 1 else y - x))"
  define d where "d = drop (length s - 6) s"
  have "6 \<le> length s"
    unfolding s_def by (rule length_Sprintf)
  then have d6: "length d = 6"
    by (simp add: d_def)
  have "branchLine a2 x y l = (''04'' @ ToUpper a2 @ '' '') @ ''48'' @ d"
    by (simp add: branchLine_48 d_def s_def)
  then show ?thesis
    unfolding branchPrefix_def by (simp only: prefix_of_line [OF d6])
qed

lemma branch_prefix_always_48:
  "generateBranchCodeLine address targetAddress shouldLink = Inr line \<Longrightarrow> branchPrefix line = ''48''"
  by (auto simp: generateBranchCodeLine_def branchPrefix_branchLine
      split: sum.splits prod.splits if_splits)

text \<open>
  C1. For parseable addresses the prefix should be 48 when the target is not below the
  base and 4B when it is. At base \<^verbatim>\<open>80001234\<close> and target \<^verbatim>\<open>80001000\<close>, a backward branch,
  the program emits the prefix 48 with the displacement field \<^verbatim>\<open>FFFDCC\<close>: its test
  for a negative difference is made on an unsigned number.
\<close>

theorem backward_branch_gets_forward_prefix:
  "generateBranchCodeLine ''80001234'' ''80001000'' False = Inr ''04001234 48FFFDCC''"
  by (simp add: branch_eval parse_eval format_eval)

subsection \<open>The displacement field\<close>

lemma less_16_cases:
  "(k::nat) < 16 \<Longrightarrow> k = 0 \<or> k = 1 \<or> k = 2 \<or> k = 3 \<or> k = 4 \<or> k = 5 \<or> k = 6 \<or> k = 7
     \<or> k = 8 \<or> k = 9 \<or> k = 10 \<or> k = 11 \<or> k = 12 \<or> k = 13 \<or> k = 14 \<or> k = 15"
  by arith

lemma digitValue_upperhex:
  assumes "k < 16"
  shows "digitValue (upperhex ! k) = k"
  using less_16_cases [OF assms] by (elim disjE) (simp_all add: upperhex_def digitValue_def)

lemma hexValue_Nil: "hexValue [] = 0"
  by (simp add: hexValue_def)

lemma hexValue_snoc: "hexValue (s @ [c]) = 16 * hexValue s + digitValue c"
  by (simp add: hexValue_def)

lemma hexValue_fmtX: "hexValue (fmtX n) = n"
proof (induction n rule: fmtX.induct)
  case (1 n)
  show ?case
  proof (cases "n < 16")
    case True
    then show ?thesis
      using hexValue_snoc [of "[]" "upperhex ! n"]
      by (simp add: fmtX_small hexValue_Nil digitValue_upperhex)
  next
    case False
    then have "hexValue (fmtX (n div 16)) = n div 16"
      using 1 by simp
    with False show ?thesis
      by (simp add: fmtX_big hexValue_snoc digitValue_upperhex)
  qed
qed

lemma hexValue_append:
  "hexValue (xs @ ys) = hexValue xs * 16 ^ length ys + hexValue ys"
proof (induction ys rule: rev_induct)
  case Nil
  then show ?case by (simp add: hexValue_Nil)
next
  case (snoc c ys)
  have "hexValue (xs @ ys @ [c]) = 16 * hexValue (xs @ ys) + digitValue c"
    using hexValue_snoc [of "xs @ ys" c] by simp
  with snoc show ?case
    by (simp add: hexValue_snoc algebra_simps)
qed

lemma digitValue_zero: "digitValue CHR ''0'' = 0"
  by (simp add: digitValue_def)

lemma hexValue_zeros: "hexValue (replicate k CHR ''0'') = 0"
proof (induction k)
  case 0
  then show ?case by (simp add: hexValue_Nil)
next
  case (Suc k)
  have "replicate (Suc k) CHR ''0'' = replicate k CHR ''0'' @ [CHR ''0'']"
    by (simp add: replicate_append_same)
  then show ?case
    using Suc by (simp only: hexValue_snoc digitValue_zero)
qed

lemma hexValue_Sprintf: "hexValue (Sprintf_0X w n) = n"
  by (simp add: Sprintf_0X_def hexValue_append hexValue_zeros hexValue_fmtX)

lemma small_digits_fmtX: "list_all (\<lambda>c. digitValue c < 16) (fmtX n)"
proof (induction n rule: fmtX.induct)
  case (1 n)
  show ?case
  proof (cases "n < 16")
    case True
    then show ?thesis by (simp add: fmtX_small digitValue_upperhex)
  next
    case False
    with 1 show ?thesis by (simp add: fmtX_big digitValue_upperhex)
  qed
qed

lemma small_digits_Sprintf: "list_all (\<lambda>c. digitValue c < 16) (Sprintf_0X w n)"
  using small_digits_fmtX [of n]
  by (auto simp: Sprintf_0X_def list_all_iff digitValue_zero)

lemma hexValue_less: "list_all (\<lambda>c. digitValue c < 16) s \<Longrightarrow> hexValue s < 16 ^ length s"
proof (induction s rule: rev_induct)
  case Nil
  then show ?case by (simp add: hexValue_Nil)
next
  case (snoc c s)
  then have "hexValue s < 16 ^ length s" and "digitValue c < 16"
    by simp_all
  then have "16 * hexValue s + digitValue c < 16 * 16 ^ length s"
    by arith
  then show ?case by (simp add: hexValue_snoc)
qed

lemma hexValue_drop:
  assumes "list_all (\<lambda>c. digitValue c < 16) s"
  shows "hexValue (drop k s) = hexValue s mod 16 ^ (length s - k)"
proof -
  have sm: "list_all (\<lambda>c. digitValue c < 16) (drop k s)"
    using assms by (auto simp: list_all_iff dest: in_set_dropD)
  have "hexValue s = hexValue (take k s) * 16 ^ length (drop k s) + hexValue (drop k s)"
    using hexValue_append [of "take k s" "drop k s"] by simp
  moreover have "hexValue (drop k s) < 16 ^ length (drop k s)"
    using sm by (rule hexValue_less)
  ultimately show ?thesis by simp
qed

lemma field_of_line:
  assumes "length d = 6"
  shows "drop (length (pre @ d) - 6) (pre @ d) = d"
  using assms by simp

text \<open>The field of a branch line is the difference (plus the link bit), cut to 24 bits.\<close>

lemma displacementField_branchLine:
  "displacementField (branchLine a x y l) = of_nat (unat (if l then y - x + 1 else y - x))"
proof -
  define z where "z = unat (if l then y - x + 1 else y - x)"
  define s where "s = Sprintf_0X 6 z"
  define d where "d = drop (length s - 6) s"
  have len: "6 \<le> length s"
    unfolding s_def by (rule length_Sprintf)
  then have d6: "length d = 6"
    by (simp add: d_def)
  have line: "branchLine a x y l = (''04'' @ ToUpper a @ '' 48'') @ d"
    by (simp add: branchLine_48 d_def s_def z_def)
  have "hexValue d = hexValue s mod 16 ^ (length s - (length s - 6))"
    unfolding d_def by (rule hexValue_drop) (simp add: s_def small_digits_Sprintf)
  also have "\<dots> = z mod 16 ^ 6"
    using len by (simp add: s_def hexValue_Sprintf)
  finally have val: "hexValue d = z mod 2 ^ 24"
    by simp
  have "displacementField (branchLine a x y l) = of_nat (hexValue d)"
    unfolding displacementField_def line by (simp only: field_of_line [OF d6])
  also have "\<dots> = (of_nat z :: 24 word)"
    unfolding val by (simp add: word_of_nat_eq_iff take_bit_eq_mod)
  finally show ?thesis by (simp add: z_def)
qed

lemma link_field:
  "(of_nat (unat ((z::uint64) + 1)) :: 24 word) = of_nat (unat z) + 1"
proof -
  have "unat (z + 1) = (unat z + 1) mod 2 ^ 64"
    by (simp add: unat_word_ariths)
  moreover have "(unat z + 1) mod 2 ^ 64 mod 2 ^ 24 = (unat z + 1) mod 2 ^ 24"
    by (rule mod_mod_cancel) (simp add: le_imp_power_dvd)
  ultimately have "take_bit 24 (unat (z + 1)) = take_bit 24 (unat z + 1)"
    by (simp add: take_bit_eq_mod)
  then have "(of_nat (unat (z + 1)) :: 24 word) = of_nat (unat z + 1)"
    by (subst word_of_nat_eq_iff) simp
  then show ?thesis by simp
qed

text \<open>
  C5. For the same pair of addresses, whenever the program emits a branch line it also
  emits a branch-and-link line, and the 24-bit displacement field of the latter is the
  field of the former plus 1 (in 24-bit arithmetic).
\<close>

theorem link_displacement_is_branch_displacement_plus_one:
  assumes "generateBranchCodeLine address targetAddress False = Inr line"
  shows "\<exists>linkLine. generateBranchCodeLine address targetAddress True = Inr linkLine
           \<and> displacementField linkLine = displacementField line + 1"
  using assms
  by (auto simp: generateBranchCodeLine_def displacementField_branchLine link_field
      simp del: of_nat_unat unsigned_of_nat
      split: sum.splits prod.splits if_splits)

lemma forward_branch_example:
  "generateBranchCodeLine ''80001000'' ''80001234'' False = Inr ''04001000 48000234''"
  by (simp add: branch_eval parse_eval format_eval)

theorem link_displacement_witness:
  "\<exists>linkLine. generateBranchCodeLine ''80001000'' ''80001234'' True = Inr linkLine
     \<and> displacementField linkLine = displacementField ''04001000 48000234'' + 1"
  using link_displacement_is_branch_displacement_plus_one [OF forward_branch_example] .

subsection \<open>A base address that does not parse\<close>

lemma parseUintLoop_error:
  "parseUintLoop n s = (v, Some e) \<Longrightarrow> v = (case e of ErrSyntax \<Rightarrow> 0 | ErrRange \<Rightarrow> maxVal)"
  by (induction s arbitrary: n) (auto simp: Let_def split: option.splits if_splits)

lemma ParseUint_error:
  "ParseUint s = (v, Some e) \<Longrightarrow> v = (case e of ErrSyntax \<Rightarrow> 0 | ErrRange \<Rightarrow> 0xFFFFFFFF)"
  by (auto simp: ParseUint_def maxVal_def split: if_splits numError.splits
      dest!: parseUintLoop_error)

text \<open>
  C9, as the specification states it, fails: when the base address has more than 32 bits, its
  parse fails with a range error and the value \<open>2^32 - 1\<close>, and the line is built from
  that value, not from 0.
\<close>

theorem base_out_of_range_counterexample:
  "ParseUint (drop 2 ''80100000000'') = (0xFFFFFFFF, Some ErrRange)
   \<and> ParseUint (drop 2 ''80000000'') = (0, None)
   \<and> generateBranchCodeLine ''80100000000'' ''80000000'' False = Inr ''04100000000 48000001''
   \<and> branchLine (drop 2 ''80100000000'') 0 0 False = ''04100000000 48000000''"
  by (simp add: branch_eval parse_eval format_eval)

text \<open>
  C9, amended. When the base address is long enough to be cut but does not parse, and
  the target address parses, no error is raised: the line is built with the value the
  failed parse returned, which is 0 after a syntax error and \<open>2^32 - 1\<close> after a
  range error.
\<close>

theorem base_parse_failure_is_not_detected:
  assumes "2 \<le> length address" and "2 \<le> length targetAddress"
    and "ParseUint (drop 2 address) = (v, Some e)"
    and "ParseUint (drop 2 targetAddress) = (t, None)"
  shows "generateBranchCodeLine address targetAddress shouldLink =
           Inr (branchLine (drop 2 address)
                  (case e of ErrSyntax \<Rightarrow> 0 | ErrRange \<Rightarrow> 0xFFFFFFFF) t shouldLink)"
proof -
  have "v = (case e of ErrSyntax \<Rightarrow> 0 | ErrRange \<Rightarrow> 0xFFFFFFFF)"
    using assms(3) by (rule ParseUint_error)
  then show ?thesis
    using assms by (simp add: generateBranchCodeLine_def from2_def)
qed

lemma base_syntax_error_example:
  "ParseUint (drop 2 ''80zz'') = (0, Some ErrSyntax)"
  by (simp add: parse_eval)

lemma target_parse_example:
  "ParseUint (drop 2 ''80000000'') = (0, None)"
  by (simp add: parse_eval)

theorem base_parse_failure_witness:
  "generateBranchCodeLine ''80zz'' ''80000000'' False = Inr ''04ZZ 48000000''"
proof -
  have "generateBranchCodeLine ''80zz'' ''80000000'' False =
          Inr (branchLine (drop 2 ''80zz'') (case ErrSyntax of ErrSyntax \<Rightarrow> 0 | ErrRange \<Rightarrow> 0xFFFFFFFF) 0 False)"
    by (rule base_parse_failure_is_not_detected
        [OF _ _ base_syntax_error_example target_parse_example]) simp_all
  then show ?thesis
    by (simp add: branchLine_def format_eval)
qed

section \<open>Packing\<close>

lemma elems_appendBytes: "elems (appendBytes grow s bs) = elems s @ bs"
  by (simp add: appendBytes_def)

lemma elems_padInjection:
  "elems (padInjection grow s) =
     elems s @ (if length (elems s) mod 8 = 0
                then [0x60, 0x00, 0x00, 0x00, 0x00, 0x00, 0x00, 0x00]
                else [0x00, 0x00, 0x00, 0x00])"
  by (simp add: padInjection_def elems_appendBytes)

lemma elems_padBlock:
  "elems (padBlock grow s) =
     elems s @ (if length (elems s) mod 8 \<noteq> 0 then [0x60, 0x00, 0x00, 0x00] else [])"
  by (simp add: padBlock_def elems_appendBytes)

text \<open>
  Both paddings reach a multiple of 8 exactly when the input is made of whole 4-byte
  words.
\<close>

lemma padInjection_aligned_iff:
  "length (elems (padInjection grow s)) mod 8 = 0 \<longleftrightarrow> length (elems s) mod 4 = 0"
  unfolding elems_padInjection by (simp split: if_splits) presburger

lemma padBlock_aligned_iff:
  "length (elems (padBlock grow s)) mod 8 = 0 \<longleftrightarrow> length (elems s) mod 4 = 0"
  unfolding elems_padBlock by (simp split: if_splits) presburger

text \<open>
  C2. The packer's output should have a length divisible by 8 for every input. A
  binary file of 5 bytes, packed in mode B as \<^verbatim>\<open>generateReplaceBinaryLines\<close> does, gets one
  4-byte word appended and has 9 bytes, whatever the capacity of the slice. Read into a
  slice with room for 16 bytes, it yields a header that reports 9 bytes and two lines,
  the second made of the ninth byte and 7 bytes of the spare capacity.
\<close>

theorem five_bytes_pad_to_nine:
  "length (elems (padBlock grow \<lparr>elems = [0x01, 0x02, 0x03, 0x04, 0x05], spare = sp\<rparr>)) = 9
   \<and> length (elems (padBlock grow \<lparr>elems = [0x01, 0x02, 0x03, 0x04, 0x05], spare = sp\<rparr>)) mod 8 = 1
   \<and> generateReplaceBinaryLines
         (exampleWorld \<lparr>elems = [0x01, 0x02, 0x03, 0x04, 0x05],
                          spare = [0, 0, 0, 0, 0, 0, 0, 0, 0, 0, 0]\<rparr> [] ReadDirError)
         ''80001234'' ''patch.bin''
       = Inr [''06001234 00000009'', ''01020304 05600000'', ''00000000 00000000'']"
  by (simp add: elems_padBlock block_eval lines_eval recordLines.simps format_eval)

text \<open>
  C3. In mode A, a compiled byte sequence of more than 4 bytes gets exactly the 8 bytes
  60 00 00 00 00 00 00 00 appended when its length is a multiple of 8, and exactly 4
  zero bytes otherwise; 32 bytes become 40 and 28 bytes become 32.
\<close>

theorem injection_padding:
  assumes "4 < length (elems instructions)"
  shows "elems (padInjection grow instructions) =
           elems instructions @
             (if length (elems instructions) mod 8 = 0
              then [0x60, 0x00, 0x00, 0x00, 0x00, 0x00, 0x00, 0x00]
              else [0x00, 0x00, 0x00, 0x00])
         \<and> (length (elems instructions) = 32 \<longrightarrow>
              length (elems (padInjection grow instructions)) = 40)
         \<and> (length (elems instructions) = 28 \<longrightarrow>
              length (elems (padInjection grow instructions)) = 32)"
  by (simp add: elems_padInjection)

theorem injection_padding_witness:
  "elems (padInjection (\<lambda>oldCap needed. needed) (bytesOf [1, 2, 3, 4, 5, 6, 7, 8])) =
     [1, 2, 3, 4, 5, 6, 7, 8, 0x60, 0, 0, 0, 0, 0, 0, 0]
   \<and> elems (padInjection (\<lambda>oldCap needed. needed) (bytesOf [1, 2, 3, 4, 5, 6, 7, 8, 9, 10, 11, 12])) =
     [1, 2, 3, 4, 5, 6, 7, 8, 9, 10, 11, 12, 0, 0, 0, 0]"
  using injection_padding [of "bytesOf [1, 2, 3, 4, 5, 6, 7, 8]" "\<lambda>oldCap needed. needed"]
    injection_padding [of "bytesOf [1, 2, 3, 4, 5, 6, 7, 8, 9, 10, 11, 12]" "\<lambda>oldCap needed. needed"]
  by (simp add: bytesOf_def)

section \<open>Records\<close>




section \<open>The binary container\<close>

subsection \<open>Decoding hexadecimal text\<close>

lemma fromHexChar_eq:
  "fromHexChar c = (if isHexDigit c then Some (of_nat (digitValue c)) else None)"
  by (auto simp: fromHexChar_def isHexDigit_def digitValue_def Let_def)

lemma digitValue_less: "isHexDigit c \<Longrightarrow> digitValue c < 16"
  by (auto simp: isHexDigit_def digitValue_def Let_def)

lemma nibbles:
  assumes "a < 16" and "b < 16"
  shows "push_bit 4 (of_nat a :: byte) OR of_nat b = of_nat (16 * a + b)"
proof -
  have "(of_nat (16 * a + b) :: byte) = push_bit 4 (of_nat a) + of_nat b"
    by (simp add: push_bit_eq_mult)
  also have "\<dots> = push_bit 4 (of_nat a) OR of_nat b"
  proof (rule disjunctive_add_eq_or, rule bit_eqI)
    fix n
    have "take_bit 4 b = b"
      using assms(2) by (simp add: take_bit_nat_eq_self)
    then have "bit b n \<longleftrightarrow> n < 4 \<and> bit b n"
      by (metis bit_take_bit_iff)
    then show "bit (push_bit 4 (of_nat a :: byte) AND of_nat b) n \<longleftrightarrow> bit (0 :: byte) n"
      by (auto simp: bit_simps)
  qed
  finally show ?thesis by simp
qed

lemma DecodeString_valid:
  "even (length s) \<Longrightarrow> validHex s \<Longrightarrow> DecodeString s = Inr (hexBytes s)"
proof (induction s rule: DecodeString.induct)
  case 1
  then show ?case by simp
next
  case (2 p)
  then show ?case by simp
next
  case (3 p q src)
  then have p: "fromHexChar p = Some (of_nat (digitValue p))"
    and q: "fromHexChar q = Some (of_nat (digitValue q))"
    and small: "digitValue p < 16" "digitValue q < 16"
    by (simp_all add: validHex_def fromHexChar_eq digitValue_less)
  have "DecodeString src = Inr (hexBytes src)"
    using 3 p q by (simp add: validHex_def)
  then show ?case
    by (simp add: p q nibbles [OF small])
qed

lemma DecodeString_invalid: "\<not> validHex s \<Longrightarrow> \<exists>e. DecodeString s = Inl e"
proof (induction s rule: DecodeString.induct)
  case 1
  then show ?case by (simp add: validHex_def)
next
  case (2 p)
  then show ?case by (simp split: option.splits)
next
  case (3 p q src)
  show ?case
  proof (cases "isHexDigit p \<and> isHexDigit q")
    case True
    then have p: "fromHexChar p = Some (of_nat (digitValue p))"
      and q: "fromHexChar q = Some (of_nat (digitValue q))"
      by (simp_all add: fromHexChar_eq)
    have "\<not> validHex src"
      using 3(2) True by (simp add: validHex_def)
    then obtain e where "DecodeString src = Inl e"
      using 3(1) [OF p q] by blast
    then show ?thesis
      by (simp add: p q)
  next
    case False
    then show ?thesis
      by (auto simp: fromHexChar_eq)
  qed
qed

lemma DecodeString_eq:
  assumes "even (length s)"
  shows "(case DecodeString s of Inl e \<Rightarrow> [] | Inr dst \<Rightarrow> dst) = (if validHex s then hexBytes s else [])"
proof (cases "validHex s")
  case True
  then show ?thesis
    using DecodeString_valid [OF assms] by simp
next
  case False
  then show ?thesis
    using DecodeString_invalid [of s] by auto
qed

lemma hexBytes_append: "even (length a) \<Longrightarrow> hexBytes (a @ b) = hexBytes a @ hexBytes b"
  by (induction a rule: hexBytes.induct) simp_all

lemma length_hexBytes: "length (hexBytes s) = length s div 2"
  by (induction s rule: hexBytes.induct) simp_all

lemma validHex_append: "validHex (a @ b) \<longleftrightarrow> validHex a \<and> validHex b"
  by (simp add: validHex_def)

text \<open>What one iteration of the loop of \<^verbatim>\<open>writeGctOutput\<close> appends.\<close>

lemma decoded_line:
  assumes "17 \<le> length line"
  shows "(case DecodeString (take 8 line @ take 8 (drop 9 line)) of Inl e \<Rightarrow> [] | Inr dst \<Rightarrow> dst)
           = codeLineBytes line"
proof -
  have "even (length (take 8 line @ take 8 (drop 9 line)))"
    using assms by simp
  then have "(case DecodeString (take 8 line @ take 8 (drop 9 line)) of Inl e \<Rightarrow> [] | Inr dst \<Rightarrow> dst)
      = (if validHex (take 8 line @ take 8 (drop 9 line))
         then hexBytes (take 8 line @ take 8 (drop 9 line)) else [])"
    by (rule DecodeString_eq)
  also have "\<dots> = codeLineBytes line"
    using assms by (simp add: codeLineBytes_def isCodeLine_def validHex_append hexBytes_append)
  finally show ?thesis .
qed

lemma short_line: "length line < 17 \<Longrightarrow> codeLineBytes line = []"
  by (simp add: codeLineBytes_def isCodeLine_def)

lemma gctLoop_eq: "gctLoop gctBytes out = gctBytes @ concat (map codeLineBytes out)"
proof (induction out arbitrary: gctBytes)
  case Nil
  then show ?case by simp
next
  case (Cons line out)
  show ?case
  proof (cases "length line < 17")
    case True
    then show ?thesis by (simp add: Cons short_line)
  next
    case False
    then have "(case DecodeString (take 8 line @ take 8 (drop 9 line)) of Inl e \<Rightarrow> [] | Inr dst \<Rightarrow> dst)
        = codeLineBytes line"
      by (simp add: decoded_line)
    with False show ?thesis
      by (simp add: Cons split: sum.splits)
  qed
qed

lemma writeGctOutput_eq:
  "writeGctOutput out =
     [0x00, 0xD0, 0xC0, 0xDE, 0x00, 0xD0, 0xC0, 0xDE] @ concat (map codeLineBytes out)
     @ [0xF0, 0x00, 0x00, 0x00, 0x00, 0x00, 0x00, 0x00]"
  by (simp add: writeGctOutput_def gctLoop_eq)

lemma text_only_line: "isTextOnlyLine line \<Longrightarrow> codeLineBytes line = []"
  by (cases line)
    (auto simp: isTextOnlyLine_def codeLineBytes_def isCodeLine_def validHex_def isHexDigit_def)

lemma length_codeLineBytes: "length (codeLineBytes line) = (if isCodeLine line then 8 else 0)"
  by (auto simp: codeLineBytes_def isCodeLine_def length_hexBytes)

lemma length_code_bytes:
  "length (concat (map codeLineBytes out)) = 8 * length (filter isCodeLine out)"
  by (induction out) (simp_all add: length_codeLineBytes)

lemma code_bytes_filter:
  "concat (map codeLineBytes (filter (\<lambda>line. \<not> isTextOnlyLine line) out)) =
     concat (map codeLineBytes out)"
  by (induction out) (simp_all add: text_only_line)

subsection \<open>The layout of the container\<close>

text \<open>
  C6. The binary serialization is the header 00 D0 C0 DE 00 D0 C0 DE, then for every
  line in order the 8 bytes that its characters [0,8) and [9,17) denote when the line
  has at least 17 characters and both ranges are hexadecimal text, and nothing for any
  other line, then the footer F0 00 00 00 00 00 00 00. Header lines, comment lines and
  blank lines contribute nothing: removing them does not change the container.
\<close>

theorem gct_layout:
  "writeGctOutput out =
     [0x00, 0xD0, 0xC0, 0xDE, 0x00, 0xD0, 0xC0, 0xDE] @ concat (map codeLineBytes out)
     @ [0xF0, 0x00, 0x00, 0x00, 0x00, 0x00, 0x00, 0x00]
   \<and> (\<forall>line. isTextOnlyLine line \<longrightarrow> codeLineBytes line = [])
   \<and> writeGctOutput (filter (\<lambda>line. \<not> isTextOnlyLine line) out) = writeGctOutput out"
  by (simp add: writeGctOutput_eq text_only_line code_bytes_filter)

lemmas gct_eval = codeLineBytes_def isCodeLine_def isTextOnlyLine_def validHex_def
  isHexDigit_def digitValue_def

theorem gct_layout_witness:
  "writeGctOutput [''$Name [Author]'', ''*Desc'', ''04001234 60000000 #nop'', []] =
     [0x00, 0xD0, 0xC0, 0xDE, 0x00, 0xD0, 0xC0, 0xDE,
      0x04, 0x00, 0x12, 0x34, 0x60, 0x00, 0x00, 0x00,
      0xF0, 0x00, 0x00, 0x00, 0x00, 0x00, 0x00, 0x00]
   \<and> isTextOnlyLine ''$Name [Author]'' \<and> codeLineBytes ''$Name [Author]'' = []"
  using gct_layout [of "[''$Name [Author]'', ''*Desc'', ''04001234 60000000 #nop'', []]"]
  by (simp add: gct_eval)

text \<open>
  C10. The container has exactly 16 bytes more than 8 times the number of code lines
  of the output: its length is a multiple of 8 and at least 16, also when there is no
  code line at all.
\<close>

theorem gct_length:
  "length (writeGctOutput out) = 16 + 8 * length (filter isCodeLine out)
   \<and> 8 dvd length (writeGctOutput out)
   \<and> 16 \<le> length (writeGctOutput out)
   \<and> length (writeGctOutput []) = 16"
proof -
  have "length (writeGctOutput out) = 16 + 8 * length (filter isCodeLine out)" for out
    by (simp add: writeGctOutput_eq length_code_bytes)
  then show ?thesis by simp
qed

theorem gct_length_witness:
  "length (writeGctOutput [''$Name [Author]'', ''*Desc'', ''04001234 60000000 #nop'', []]) = 24"
  using gct_length [of "[''$Name [Author]'', ''*Desc'', ''04001234 60000000 #nop'', []]"]
  by (simp add: isCodeLine_def validHex_def isHexDigit_def)

section \<open>Injections\<close>




subsection \<open>Compiled code that is not made of whole words\<close>

text \<open>
  When the loop over the records returns, it returns one line for every started
  stretch of 8 bytes.
\<close>

lemma started_records:
  assumes "i < (n::nat)"
  shows "(n - i + 7) div 8 = Suc ((n - (i + 8) + 7) div 8)"
proof (cases "8 \<le> n - i")
  case True
  then have "n - i + 7 = (n - (i + 8) + 7) + 8"
    by simp
  then show ?thesis
    by (simp only: div_add_self2)
next
  case False
  then have "n - (i + 8) = 0" and "8 \<le> n - i + 7" and "n - i + 7 < 16"
    using assms by simp_all
  then have "(n - i + 7) div 8 = 1"
    by (simp add: div_nat_eqI)
  then show ?thesis
    using \<open>n - (i + 8) = 0\<close> by simp
qed


lemma recordLines_count:
  "recordLines s i = Inr lines \<Longrightarrow> length lines = (length (elems s) - i + 7) div 8"
proof (induction s i arbitrary: lines rule: recordLines.induct)
  case (1 s i)
  show ?case
  proof (cases "i < length (elems s)")
    case False
    then have "recordLines s i = Inr []"
      by (subst recordLines.simps) simp
    then show ?thesis
      using "1.prems" False by simp
  next
    case True
    have unfold: "recordLines s i =
        (case sliceBytes s i (i + 4) of
           Inl e \<Rightarrow> Inl e
         | Inr l \<Rightarrow>
            (case sliceBytes s (i + 4) (i + 8) of
               Inl e \<Rightarrow> Inl e
             | Inr r \<Rightarrow>
                (case recordLines s (i + 8) of
                   Inl e \<Rightarrow> Inl e
                 | Inr lines \<Rightarrow>
                    Inr ((ToUpper (EncodeToString l) @ '' '' @ ToUpper (EncodeToString r))
                         # lines))))"
      using True by (subst recordLines.simps) simp
    obtain l where l: "sliceBytes s i (i + 4) = Inr l"
      using "1.prems" unfolding unfold by (cases "sliceBytes s i (i + 4)") simp_all
    obtain r where r: "sliceBytes s (i + 4) (i + 8) = Inr r"
      using "1.prems" unfolding unfold l by (cases "sliceBytes s (i + 4) (i + 8)") simp_all
    obtain rest where rest: "recordLines s (i + 8) = Inr rest"
      using "1.prems" unfolding unfold l r by (cases "recordLines s (i + 8)") simp_all
    have lines: "length lines = Suc (length rest)"
      using "1.prems" unfolding unfold l r rest by auto
    have "length rest = (length (elems s) - (i + 8) + 7) div 8"
      using True l r rest by (rule "1.IH")
    with lines have "length lines = Suc ((length (elems s) - (i + 8) + 7) div 8)"
      by simp
    then show ?thesis
      by (simp only: started_records [OF True])
  qed
qed

lemma partial_record:
  assumes "(n::nat) mod 8 \<noteq> 0"
  shows "(n + 7) div 8 = Suc (n div 8)"
proof -
  have "n = 8 * (n div 8) + n mod 8"
    by simp
  moreover have "0 < n mod 8" and "n mod 8 < 8"
    using assms by simp_all
  ultimately show ?thesis
    by arith
qed

text \<open>
  Whatever the capacity of the slice and the growth of the run-time system, a compiled
  length that is not a multiple of 4 never yields the block of the padded bytes: the
  build panics in the loop, or one more line follows the header than the header counts.
\<close>

lemma partial_word_injection_is_no_block:
  assumes "compile w file = Inr instructions"
    and "length (elems instructions) mod 4 \<noteq> 0"
  shows "generateInjectionCodeLines w address file \<noteq>
           Inr (injectionBlock address (elems (padInjection (growslice w) instructions)))"
proof
  define packed where "packed = padInjection (growslice w) instructions"
  assume eq: "generateInjectionCodeLines w address file =
      Inr (injectionBlock address (elems (padInjection (growslice w) instructions)))"
  have len: "length (elems instructions) \<noteq> 0" "length (elems instructions) \<noteq> 4"
    using assms(2) by auto
  have unaligned: "length (elems packed) mod 8 \<noteq> 0"
    using assms(2) by (simp add: packed_def padInjection_aligned_iff)
  have "generateInjectionCodeLines w address file =
      (case from2 address of
         Inl e \<Rightarrow> Inl e
       | Inr address2 \<Rightarrow>
          (case recordLines packed 0 of
             Inl e \<Rightarrow> Inl e
           | Inr lines \<Rightarrow>
              Inr ((''C2'' @ ToUpper address2 @ '' ''
                    @ Sprintf_0X 8 (length (elems packed) div 8)) # lines)))"
    using assms(1) len unfolding packed_def
    by (simp add: generateInjectionCodeLines_def Let_def)
  then obtain lines where rec: "recordLines packed 0 = Inr lines"
    and block: "length lines = length (elems packed) div 8"
    using eq unfolding injectionBlock_def packed_def [symmetric]
    by (auto split: sum.splits)
  have "length lines = (length (elems packed) - 0 + 7) div 8"
    using rec by (rule recordLines_count)
  then have "length lines = Suc (length (elems packed) div 8)"
    using partial_record [OF unaligned] by simp
  then show False
    using block by simp
qed

section \<open>Folders\<close>

lemma length_addressOfLine: "8 \<le> length firstLine \<Longrightarrow> length (addressOfLine firstLine) = 8"
  by (simp add: addressOfLine_def)

lemma injection_lines_nonempty:
  "generateInjectionCodeLines w address file = Inr fileLines \<Longrightarrow> fileLines \<noteq> []"
  by (auto simp: generateInjectionCodeLines_def Let_def split: sum.splits if_splits)

text \<open>A file whose first line does not end in a well-formed address stops the build.\<close>

lemma injectFile_bad_address:
  assumes "firstLineOf w (filepathJoin w folder fileName) = Some firstLine"
    and "\<not> wellFormedAddress firstLine"
  shows "\<exists>detail. injectFile w folder fileName =
           Inl (AddressNotSpecified (filepathJoin w folder fileName) detail)"
proof (cases "length firstLine < 8")
  case True
  then show ?thesis
    using assms by (simp add: injectFile_def Let_def)
next
  case False
  then have "\<not> validHex (drop (length firstLine - 8) firstLine)"
    using assms(2) by (simp add: wellFormedAddress_def addressOfLine_def)
  then obtain err where "DecodeString (drop (length firstLine - 8) firstLine) = Inl err"
    using DecodeString_invalid by blast
  then show ?thesis
    using assms(1) False by (simp add: injectFile_def Let_def)
qed

text \<open>
  A file whose first line ends in a well-formed address is compiled for that address,
  and the first line of its block is annotated with the path of the file.
\<close>

lemma injectFile_good_address:
  assumes "firstLineOf w (filepathJoin w folder fileName) = Some firstLine"
    and "wellFormedAddress firstLine"
  shows "injectFile w folder fileName =
     (case generateInjectionCodeLines w (addressOfLine firstLine) (filepathJoin w folder fileName) of
        Inl e \<Rightarrow> Inl e
      | Inr fileLines \<Rightarrow>
         Inr (addLineAnnotation (hd fileLines) (filepathJoin w folder fileName) # tl fileLines))"
proof -
  have len: "\<not> length firstLine < 8" and hex: "validHex (addressOfLine firstLine)"
    using assms(2) by (simp_all add: wellFormedAddress_def)
  have "even (length (addressOfLine firstLine))"
    using len by (simp add: length_addressOfLine)
  then have "DecodeString (addressOfLine firstLine) = Inr (hexBytes (addressOfLine firstLine))"
    using hex by (rule DecodeString_valid)
  then have dec: "DecodeString (drop (length firstLine - 8) firstLine) =
      Inr (hexBytes (addressOfLine firstLine))"
    by (simp add: addressOfLine_def)
  show ?thesis
  proof (cases "generateInjectionCodeLines w (addressOfLine firstLine) (filepathJoin w folder fileName)")
    case (Inl e)
    then show ?thesis
      using assms(1) len dec by (simp add: injectFile_def Let_def addressOfLine_def)
  next
    case (Inr fileLines)
    then have "fileLines \<noteq> []"
      by (rule injection_lines_nonempty)
    then obtain line rest where "fileLines = line # rest"
      by (cases fileLines) simp_all
    then show ?thesis
      using assms(1) len dec Inr
      by (simp add: injectFile_def Let_def addressOfLine_def annotateFirst_def)
  qed
qed

lemma injectFiles_fail:
  "file \<in> set (asmEntries contents) \<Longrightarrow> injectFile w folder (entryName file) = Inl e \<Longrightarrow>
     \<exists>e'. injectFiles w folder contents = Inl e'"
proof (induction contents)
  case Nil
  then show ?case by (simp add: asmEntries_def)
next
  case (Cons first contents)
  show ?case
  proof (cases "Ext (entryName first) = ''.asm''")
    case False
    then have "file \<in> set (asmEntries contents)"
      using Cons.prems(1) by (simp add: asmEntries_def)
    then show ?thesis
      using Cons False by simp
  next
    case True
    show ?thesis
    proof (cases "injectFile w folder (entryName first)")
      case (Inl e1)
      then show ?thesis
        using True by simp
    next
      case (Inr fileLines)
      then have "file \<noteq> first"
        using Cons.prems(2) by auto
      then have "file \<in> set (asmEntries contents)"
        using Cons.prems(1) True by (auto simp: asmEntries_def)
      then obtain e' where "injectFiles w folder contents = Inl e'"
        using Cons by blast
      then show ?thesis
        using True Inr by simp
    qed
  qed
qed

lemma injectFiles_lines:
  "injectFiles w folder contents = Inr lines \<Longrightarrow>
     lines = concat (map (\<lambda>file. linesOf (injectFile w folder (entryName file))) (asmEntries contents))"
  by (induction contents arbitrary: lines)
    (auto simp: asmEntries_def linesOf_def split: sum.splits if_splits)

lemma injectSubfolders_lines:
  "injectSubfolders w folder isRecursive contents = Inr lines \<Longrightarrow>
     lines = concat (map (\<lambda>dir. linesOf (generateInjectionFolderLines w
                (filepathJoin w folder (entryName dir)) isRecursive (entryListing dir)))
              (dirEntries contents))"
proof (induction contents arbitrary: lines)
  case Nil
  then show ?case by (simp add: dirEntries_def)
next
  case (Cons dir contents)
  then show ?case
    by (cases dir) (auto simp: dirEntries_def linesOf_def split: sum.splits if_splits)
qed

lemma folder_fails_on_bad_address:
  assumes "file \<in> set (asmEntries contents)"
    and "firstLineOf w (filepathJoin w folder (entryName file)) = Some firstLine"
    and "\<not> wellFormedAddress firstLine"
  shows "\<exists>e. generateInjectionFolderLines w folder isRecursive (Contents contents) = Inl e"
proof -
  obtain detail where "injectFile w folder (entryName file) =
      Inl (AddressNotSpecified (filepathJoin w folder (entryName file)) detail)"
    using injectFile_bad_address [OF assms(2,3)] by blast
  then obtain e' where "injectFiles w folder contents = Inl e'"
    using injectFiles_fail [OF assms(1)] by blast
  then show ?thesis by simp
qed

lemma folder_lines_in_order:
  assumes "generateInjectionFolderLines w folder isRecursive (Contents contents) = Inr lines"
  shows "lines =
     concat (map (\<lambda>file. linesOf (injectFile w folder (entryName file))) (asmEntries contents))
     @ (if isRecursive
        then concat (map (\<lambda>dir. linesOf (generateInjectionFolderLines w
                (filepathJoin w folder (entryName dir)) isRecursive (entryListing dir)))
              (dirEntries contents))
        else [])"
  using assms
  by (auto split: sum.splits if_splits dest: injectFiles_lines injectSubfolders_lines)

text \<open>
  C7. For every entry of the folder with the extension \<^verbatim>\<open>.asm\<close> that can be opened, the
  injection address is the last 8 characters of the first line and must be 8
  hexadecimal digits: if it is, the file is compiled for that address and the first
  line of its block is annotated with the path of the file; if it is not, the file
  yields an error that names its path, and the whole folder fails. When the folder
  succeeds, its lines are the blocks of its assembly files in the order of the listing,
  followed, when the recursive flag is set, by the lines of its subdirectories in the
  order of the listing.
\<close>

theorem folder_injection:
  "(\<forall>fileName firstLine.
      firstLineOf w (filepathJoin w folder fileName) = Some firstLine \<longrightarrow>
        (if wellFormedAddress firstLine
         then injectFile w folder fileName =
           (case generateInjectionCodeLines w (addressOfLine firstLine)
                   (filepathJoin w folder fileName) of
              Inl e \<Rightarrow> Inl e
            | Inr fileLines \<Rightarrow>
               Inr (addLineAnnotation (hd fileLines) (filepathJoin w folder fileName)
                    # tl fileLines))
         else \<exists>detail. injectFile w folder fileName =
                Inl (AddressNotSpecified (filepathJoin w folder fileName) detail)))
   \<and> (\<forall>file firstLine.
        file \<in> set (asmEntries contents)
        \<and> firstLineOf w (filepathJoin w folder (entryName file)) = Some firstLine
        \<and> \<not> wellFormedAddress firstLine \<longrightarrow>
          (\<exists>e. generateInjectionFolderLines w folder isRecursive (Contents contents) = Inl e))
   \<and> (\<forall>lines.
        generateInjectionFolderLines w folder isRecursive (Contents contents) = Inr lines \<longrightarrow>
          lines =
            concat (map (\<lambda>file. linesOf (injectFile w folder (entryName file)))
                      (asmEntries contents))
            @ (if isRecursive
               then concat (map (\<lambda>dir. linesOf (generateInjectionFolderLines w
                       (filepathJoin w folder (entryName dir)) isRecursive (entryListing dir)))
                     (dirEntries contents))
               else []))"
proof (intro conjI allI impI)
  fix fileName firstLine
  assume "firstLineOf w (filepathJoin w folder fileName) = Some firstLine"
  then show "if wellFormedAddress firstLine
         then injectFile w folder fileName =
           (case generateInjectionCodeLines w (addressOfLine firstLine)
                   (filepathJoin w folder fileName) of
              Inl e \<Rightarrow> Inl e
            | Inr fileLines \<Rightarrow>
               Inr (addLineAnnotation (hd fileLines) (filepathJoin w folder fileName)
                    # tl fileLines))
         else \<exists>detail. injectFile w folder fileName =
                Inl (AddressNotSpecified (filepathJoin w folder fileName) detail)"
    using injectFile_good_address [of w folder fileName firstLine]
      injectFile_bad_address [of w folder fileName firstLine]
    by (cases "wellFormedAddress firstLine") simp_all
next
  fix source firstLine
  assume "source \<in> set (asmEntries contents)
        \<and> firstLineOf w (filepathJoin w folder (entryName source)) = Some firstLine
        \<and> \<not> wellFormedAddress firstLine"
  then show "\<exists>e. generateInjectionFolderLines w folder isRecursive (Contents contents) = Inl e"
    using folder_fails_on_bad_address by blast
next
  fix lines
  assume "generateInjectionFolderLines w folder isRecursive (Contents contents) = Inr lines"
  then show "lines =
            concat (map (\<lambda>file. linesOf (injectFile w folder (entryName file)))
                      (asmEntries contents))
            @ (if isRecursive
               then concat (map (\<lambda>dir. linesOf (generateInjectionFolderLines w
                       (filepathJoin w folder (entryName dir)) isRecursive (entryListing dir)))
                     (dirEntries contents))
               else [])"
    by (rule folder_lines_in_order)
qed

lemmas folder_eval = injectFile_def Ext_def annotateFirst_def addLineAnnotation_def
  fromHexChar_def DecodeString.simps

theorem folder_injection_witness:
  "generateInjectionFolderLines
     (exampleWorld (bytesOf [0x38, 0x60, 0x00, 0x01, 0x38, 0x80, 0x00, 0x02])
        ''# inject at 80001234'' ReadDirError)
     ''asm'' True
     (Contents [Entry ''a.asm'' False ReadDirError, Entry ''readme.txt'' False ReadDirError,
                Entry ''sub'' True (Contents [Entry ''b.asm'' False ReadDirError])])
   = Inr [''C2001234 00000002 #asm/a.asm'', ''38600001 38800002'', ''60000000 00000000'',
          ''C2001234 00000002 #asm/sub/b.asm'', ''38600001 38800002'', ''60000000 00000000'']
   \<and> wellFormedAddress ''# inject at 80001234''
   \<and> asmEntries [Entry ''a.asm'' False ReadDirError, Entry ''readme.txt'' False ReadDirError,
                Entry ''sub'' True (Contents [Entry ''b.asm'' False ReadDirError])]
       = [Entry ''a.asm'' False ReadDirError]"
  using folder_injection [of
      "exampleWorld (bytesOf [0x38, 0x60, 0x00, 0x01, 0x38, 0x80, 0x00, 0x02])
        ''# inject at 80001234'' ReadDirError"
      "''asm''"
      "[Entry ''a.asm'' False ReadDirError, Entry ''readme.txt'' False ReadDirError,
        Entry ''sub'' True (Contents [Entry ''b.asm'' False ReadDirError])]"
      True]
  by (simp add: folder_eval lines_eval recordLines.simps format_eval wellFormedAddress_def
      addressOfLine_def validHex_def isHexDigit_def asmEntries_def)

section \<open>Failures\<close>

text \<open>A failure before the first write leaves no output file behind.\<close>

lemma failed_build_writes_nothing: "buildAll w = Inl e \<Longrightarrow> written (main w) = []"
  by (simp add: main_def)

text \<open>
  The exit status after a failure is 1 only when the assembler or objcopy failed; every
  other failure is a panic that \<^verbatim>\<open>main\<close> recovers from.
\<close>

lemma failed_build_exit_status:
  "buildAll w = Inl e \<Longrightarrow>
     exitStatus (main w) = (if \<exists>source. e = CompileExit source then 1 else 0)"
  by (cases e) (simp_all add: main_def exitStatusOf_def)

text \<open>
  C8. Every error should end the process with a non-zero status and no output file.
  Run as \<^verbatim>\<open>gecko build\<close> where \<^verbatim>\<open>codes.json\<close> cannot be read, the program writes no
  output file, but \<^verbatim>\<open>log.Panic\<close> is recovered by the deferred \<^verbatim>\<open>recover()\<close> of \<^verbatim>\<open>main\<close>
  and the process ends with status 0.
\<close>

theorem unreadable_config_exits_with_status_zero:
  "buildAll (exampleWorld code firstLine contents) = Inl ConfigReadFailed
   \<and> exitStatus (main (exampleWorld code firstLine contents)) = 0
   \<and> written (main (exampleWorld code firstLine contents)) = []"
  by (simp add: main_def buildAll_def readConfigFile_def exampleWorld_def exitStatusOf_def)

end
